theory Spec2Isabelle
  imports Complex_Main "HOL-Library.AList" "HOL-Library.Char_ord" "HOL-Library.List_Lexorder"
    "HOL-Library.Product_Lexorder" "HOL-Library.Multiset"
begin

section \<open>The ledger of contable19.py\<close>

text \<open>
  The program keeps two SQLite tables, \<open>Cuentas\<close> and \<open>Transacciones\<close>, and derives every
  report from them. The embedding follows \<open>ContabilidadApp\<close> and the report loops of
  \<open>ContabilidadGUI\<close> function by function.

  Conventions of the embedding:
  \<^item> a table is the list of its rows in rowid order; a connection is the two tables
    together with the per-connection \<open>foreign_keys\<close> pragma;
  \<^item> identifiers are SQLite INTEGER values, modelled as \<open>int\<close>;
  \<^item> \<open>monto\<close> is a Python float (SQLite REAL); it is modelled as an exact rational, so
    sums and differences are exact and rounding is not part of the model;
  \<^item> text is ASCII text, a \<open>string\<close>; \<open>fecha\<close> is the text written by
    \<open>strftime("%Y-%m-%d %H:%M:%S")\<close> and is compared as text, as \<open>ORDER BY\<close> does;
  \<^item> the clock reading of \<open>datetime.now()\<close> is an argument of each function that reads it;
  \<^item> every method returns its \<open>(exito, mensaje)\<close> pair together with the new state;
    the f-string messages are the constructors of \<open>mensaje\<close>;
  \<^item> the store itself never fails (no I/O error), so \<open>sqlite3.Error\<close> is only ever the
    \<open>IntegrityError\<close> of a violated constraint;
  \<^item> the display formatting of a row (\<open>f"{x:,.2f}"\<close>, \<open>fecha.split()[0]\<close>) is not
    modelled: a row of a view holds the values that are formatted.
\<close>

subsection \<open>Tables\<close>

record cuenta =
  cuenta_id :: int
  nombre :: string
  tipo :: string

record transaccion =
  trans_id :: int
  fecha :: string
  descripcion :: string
  cuenta_debito_id :: int
  cuenta_credito_id :: int
  monto :: rat
  referencia_documento :: "string option"
  referencia_banco :: "string option"

record conexion =
  tabla_cuentas :: "cuenta list"
  tabla_transacciones :: "transaccion list"
  foreign_keys :: bool

text \<open>
  \<open>conectar_db\<close> opens the file with \<open>sqlite3.connect\<close> and nothing else: the connection
  has SQLite's default \<open>foreign_keys = OFF\<close>, and no statement of the program turns it on.
  \<open>inicializar_db\<close> only creates missing tables and columns, so it leaves the stored rows
  as they are.
\<close>

definition conectar_db :: "cuenta list \<Rightarrow> transaccion list \<Rightarrow> conexion" where
  "conectar_db cs ts = \<lparr>tabla_cuentas = cs, tabla_transacciones = ts, foreign_keys = False\<rparr>"

definition inicializar_db :: "conexion \<Rightarrow> conexion" where
  "inicializar_db db = db"

subsection \<open>Python text and dictionary helpers\<close>

text \<open>The characters \<open>str.strip()\<close> removes: those of \<open>str.isspace\<close> below 128.\<close>

definition es_espacio :: "char \<Rightarrow> bool" where
  "es_espacio c \<longleftrightarrow> c \<in> set [CHR 0x09, CHR 0x0A, CHR 0x0B, CHR 0x0C, CHR 0x0D,
                               CHR 0x1C, CHR 0x1D, CHR 0x1E, CHR 0x1F, CHR 0x20]"

definition strip :: "string \<Rightarrow> string" where
  "strip s = rev (dropWhile es_espacio (rev (dropWhile es_espacio s)))"

definition upper_char :: "char \<Rightarrow> char" where
  "upper_char c = (let n = (of_char c :: nat) in if 97 \<le> n \<and> n \<le> 122 then char_of (n - 32) else c)"

definition upper :: "string \<Rightarrow> string" where
  "upper s = map upper_char s"

text \<open>\<open>x or None\<close> on a string: the empty string is falsy.\<close>

definition o_none :: "string \<Rightarrow> string option" where
  "o_none s = (if s = [] then None else Some s)"

text \<open>\<open>d.get(k, default)\<close> on a dictionary kept as an association list.\<close>

definition dict_get :: "('k \<times> 'v) list \<Rightarrow> 'k \<Rightarrow> 'v \<Rightarrow> 'v" where
  "dict_get d k dflt = (case map_of d k of None \<Rightarrow> dflt | Some v \<Rightarrow> v)"

datatype py_error = IndexError

subsection \<open>SQL statements\<close>

datatype sqlite_error = IntegrityError

type_synonym consulta = "conexion \<Rightarrow> sqlite_error + conexion"

text \<open>The rowid SQLite gives a new row of an \<open>INTEGER PRIMARY KEY\<close> table: one more than the largest.\<close>

definition siguiente_id :: "int list \<Rightarrow> int" where
  "siguiente_id ids = (case ids of [] \<Rightarrow> 1 | i # rest \<Rightarrow> fold max rest i + 1)"

text \<open>\<open>INSERT INTO Cuentas (nombre, tipo) VALUES (?, ?)\<close>; \<open>nombre\<close> is \<open>UNIQUE\<close>.\<close>

definition insert_cuenta :: "string \<Rightarrow> string \<Rightarrow> consulta" where
  "insert_cuenta n t db =
     (if n \<in> set (map nombre (tabla_cuentas db)) then Inl IntegrityError
      else Inr (db\<lparr>tabla_cuentas := tabla_cuentas db @
                  [\<lparr>cuenta_id = siguiente_id (map cuenta_id (tabla_cuentas db)),
                    nombre = n, tipo = t\<rparr>]\<rparr>))"

text \<open>\<open>DELETE FROM Cuentas WHERE id = ?\<close>; a referenced row is protected only when the pragma is on.\<close>

definition delete_cuenta :: "int \<Rightarrow> consulta" where
  "delete_cuenta i db =
     (if foreign_keys db \<and> i \<in> set (map cuenta_id (tabla_cuentas db)) \<and>
         (\<exists>t \<in> set (tabla_transacciones db). cuenta_debito_id t = i \<or> cuenta_credito_id t = i)
      then Inl IntegrityError
      else Inr (db\<lparr>tabla_cuentas := filter (\<lambda>c. cuenta_id c \<noteq> i) (tabla_cuentas db)\<rparr>))"

text \<open>
  \<open>INSERT INTO Transacciones (fecha, descripcion, cuenta_debito_id, cuenta_credito_id, monto,
  referencia_documento, referencia_banco) VALUES (?, ?, ?, ?, ?, ?, ?)\<close>. The two
  \<open>FOREIGN KEY\<close> clauses of the table are checked only when the pragma is on.
\<close>

definition insert_transaccion ::
  "string \<Rightarrow> string \<Rightarrow> int \<Rightarrow> int \<Rightarrow> rat \<Rightarrow> string option \<Rightarrow> string option \<Rightarrow> consulta" where
  "insert_transaccion f d deb cre m rd rb db =
     (if foreign_keys db \<and>
         \<not> (deb \<in> set (map cuenta_id (tabla_cuentas db)) \<and> cre \<in> set (map cuenta_id (tabla_cuentas db)))
      then Inl IntegrityError
      else Inr (db\<lparr>tabla_transacciones := tabla_transacciones db @
                  [\<lparr>trans_id = siguiente_id (map trans_id (tabla_transacciones db)),
                    fecha = f, descripcion = d, cuenta_debito_id = deb, cuenta_credito_id = cre,
                    monto = m, referencia_documento = rd, referencia_banco = rb\<rparr>]\<rparr>))"

text \<open>\<open>DELETE FROM Transacciones WHERE id = ?\<close>: succeeds whether or not a row matches.\<close>

definition delete_transaccion :: "int \<Rightarrow> consulta" where
  "delete_transaccion i db =
     Inr (db\<lparr>tabla_transacciones := filter (\<lambda>t. trans_id t \<noteq> i) (tabla_transacciones db)\<rparr>)"

text \<open>\<open>SELECT k, SUM(monto) FROM Transacciones GROUP BY k\<close>, read into a dictionary.\<close>

fun suma_por_grupo :: "(int \<times> rat) list \<Rightarrow> (int \<times> rat) list \<Rightarrow> (int \<times> rat) list" where
  "suma_por_grupo acc [] = acc"
| "suma_por_grupo acc ((k, v) # filas) =
     suma_por_grupo (AList.update k (case map_of acc k of None \<Rightarrow> v | Some s \<Rightarrow> s + v) acc) filas"

subsection \<open>ContabilidadApp\<close>

datatype error_fila =
    DebitoNoExiste nat string
  | CreditoNoExiste nat string
  | MontoNoPositivoFila nat
  | FormatoMonto nat
  | ErrorDesconocido nat

datatype mensaje =
    NombreVacio
  | TipoInvalido
  | CuentaCreada string string
  | ErrorIntegridad
  | CuentaConTransacciones
  | CuentaEliminada
  | MismasCuentas
  | MontoNoPositivo
  | TransaccionEliminada int
  | ErrorEliminarTransaccion "mensaje option"
  | ColumnasFaltantes
  | ImportacionParcial nat nat "error_fila list" "nat option"
  | ImportacionExitosa nat
  | ArchivoNoEncontrado
  | ErrorProcesarArchivo
  | SinDatosConSaldo
  | BalanceExportado

type_synonym resultado = "bool \<times> mensaje option"

record app =
  conn :: conexion
  nombre_a_id :: "(string \<times> int) list"

definition tipos_cuenta :: "string list" where
  "tipos_cuenta = [''ACTIVO'', ''PASIVO'', ''CAPITAL'', ''INGRESO'', ''GASTO'']"

definition tipos_saldo_acreedor :: "string list" where
  "tipos_saldo_acreedor = [''PASIVO'', ''CAPITAL'', ''INGRESO'']"

text \<open>\<open>_ejecutar_consulta\<close>: run and commit, or report the integrity error and change nothing.\<close>

definition ejecutar_consulta :: "consulta \<Rightarrow> conexion \<Rightarrow> resultado \<times> conexion" where
  "ejecutar_consulta q db =
     (case q db of
        Inr db' \<Rightarrow> ((True, None), db')
      | Inl IntegrityError \<Rightarrow> ((False, Some ErrorIntegridad), db))"

text \<open>\<open>SELECT id, nombre, tipo FROM Cuentas ORDER BY tipo, nombre\<close>.\<close>

definition obtener_cuentas :: "conexion \<Rightarrow> cuenta list" where
  "obtener_cuentas db = sort_key (\<lambda>c. (tipo c, nombre c)) (tabla_cuentas db)"

definition generar_mapa_cuentas :: "conexion \<Rightarrow> (string \<times> int) list" where
  "generar_mapa_cuentas db =
     fold (\<lambda>c mapa. AList.update (upper (nombre c)) (cuenta_id c) mapa) (obtener_cuentas db) []"

text \<open>\<open>__init__\<close> on the stored tables of the database file.\<close>

definition init_app :: "cuenta list \<Rightarrow> transaccion list \<Rightarrow> app" where
  "init_app cs ts =
     (let db = inicializar_db (conectar_db cs ts)
      in \<lparr>conn = db, nombre_a_id = generar_mapa_cuentas db\<rparr>)"

definition crear_cuenta :: "app \<Rightarrow> string \<Rightarrow> string \<Rightarrow> resultado \<times> app" where
  "crear_cuenta a nombre0 tipo0 =
     (let n = upper (strip nombre0); t = upper (strip tipo0) in
      if n = [] then ((False, Some NombreVacio), a)
      else if t \<notin> set tipos_cuenta then ((False, Some TipoInvalido), a)
      else (case ejecutar_consulta (insert_cuenta n t) (conn a) of
              ((True, _), db') \<Rightarrow>
                ((True, Some (CuentaCreada n t)),
                 a\<lparr>conn := db',
                   nombre_a_id := AList.update n (cuenta_id (last (tabla_cuentas db'))) (nombre_a_id a)\<rparr>)
            | ((False, e), _) \<Rightarrow> ((False, e), a)))"

definition obtener_nombre_cuenta :: "conexion \<Rightarrow> int \<Rightarrow> string option" where
  "obtener_nombre_cuenta db i =
     (case filter (\<lambda>c. cuenta_id c = i) (tabla_cuentas db) of [] \<Rightarrow> None | c # _ \<Rightarrow> Some (nombre c))"

definition eliminar_cuenta :: "app \<Rightarrow> int \<Rightarrow> resultado \<times> app" where
  "eliminar_cuenta a i =
     (let count = length (filter (\<lambda>t. cuenta_debito_id t = i \<or> cuenta_credito_id t = i)
                            (tabla_transacciones (conn a))) in
      if count > 0 then ((False, Some CuentaConTransacciones), a)
      else (let nombre_cuenta = obtener_nombre_cuenta (conn a) i in
            case ejecutar_consulta (delete_cuenta i) (conn a) of
              ((True, _), db') \<Rightarrow>
                ((True, Some CuentaEliminada),
                 a\<lparr>conn := db',
                   nombre_a_id :=
                     (case nombre_cuenta of
                        None \<Rightarrow> nombre_a_id a
                      | Some n \<Rightarrow> if n \<noteq> [] \<and> upper n \<in> fst ` set (nombre_a_id a)
                                  then AList.delete (upper n) (nombre_a_id a)
                                  else nombre_a_id a)\<rparr>)
            | ((False, e), _) \<Rightarrow> ((False, e), a)))"

definition registrar_transaccion ::
  "app \<Rightarrow> string \<Rightarrow> string \<Rightarrow> int \<Rightarrow> int \<Rightarrow> rat \<Rightarrow> string \<Rightarrow> string \<Rightarrow> resultado \<times> app" where
  "registrar_transaccion a ahora desc debito_id credito_id m ref_doc ref_banco =
     (if debito_id = credito_id then ((False, Some MismasCuentas), a)
      else if m \<le> 0 then ((False, Some MontoNoPositivo), a)
      else (case ejecutar_consulta
                   (insert_transaccion ahora (strip desc) debito_id credito_id m
                      (o_none (strip ref_doc)) (o_none (strip ref_banco))) (conn a) of
              (r, db') \<Rightarrow> (r, a\<lparr>conn := db'\<rparr>)))"

record fila_diario =
  fd_id :: int
  fd_fecha :: string
  fd_descripcion :: string
  fd_monto :: rat
  fd_nombre_debito :: string
  fd_nombre_credito :: string
  fd_referencia_documento :: "string option"
  fd_referencia_banco :: "string option"

text \<open>
  \<open>obtener_transacciones_diario\<close>: the inner join of each entry with its two accounts,
  \<open>ORDER BY T.fecha DESC\<close> (SQL leaves the order among equal \<open>fecha\<close> open).
\<close>

definition obtener_transacciones_diario :: "conexion \<Rightarrow> fila_diario list" where
  "obtener_transacciones_diario db =
     rev (sort_key fd_fecha
       (concat (map (\<lambda>t.
          concat (map (\<lambda>cd.
            map (\<lambda>cc. \<lparr>fd_id = trans_id t, fd_fecha = fecha t, fd_descripcion = descripcion t,
                        fd_monto = monto t, fd_nombre_debito = nombre cd, fd_nombre_credito = nombre cc,
                        fd_referencia_documento = referencia_documento t,
                        fd_referencia_banco = referencia_banco t\<rparr>)
              (filter (\<lambda>cc. cuenta_credito_id t = cuenta_id cc) (tabla_cuentas db)))
            (filter (\<lambda>cd. cuenta_debito_id t = cuenta_id cd) (tabla_cuentas db))))
          (tabla_transacciones db))))"

definition eliminar_transaccion :: "app \<Rightarrow> int \<Rightarrow> resultado \<times> app" where
  "eliminar_transaccion a i =
     (case ejecutar_consulta (delete_transaccion i) (conn a) of
        ((True, _), db') \<Rightarrow> ((True, Some (TransaccionEliminada i)), a\<lparr>conn := db'\<rparr>)
      | ((False, e), _) \<Rightarrow> ((False, Some (ErrorEliminarTransaccion e)), a))"

subsection \<open>Balances and reports\<close>

record datos_saldo =
  sd_nombre :: string
  sd_tipo :: string
  saldo :: rat

text \<open>
  \<open>calcular_saldos\<close>: a dictionary entry with balance 0.0 for every row of \<open>Cuentas\<close>,
  the two grouped sums, then \<open>debitos.get(id, 0.0) - creditos.get(id, 0.0)\<close> for every key.
\<close>

definition calcular_saldos :: "conexion \<Rightarrow> (int \<times> datos_saldo) list" where
  "calcular_saldos db =
     (let saldos = fold (\<lambda>c s. AList.update (cuenta_id c)
                                  \<lparr>sd_nombre = nombre c, sd_tipo = tipo c, saldo = 0\<rparr> s)
                        (tabla_cuentas db) [];
          debitos = suma_por_grupo [] (map (\<lambda>t. (cuenta_debito_id t, monto t)) (tabla_transacciones db));
          creditos = suma_por_grupo [] (map (\<lambda>t. (cuenta_credito_id t, monto t)) (tabla_transacciones db))
      in map (\<lambda>(i, d). (i, d\<lparr>saldo := dict_get debitos i 0 - dict_get creditos i 0\<rparr>)) saldos)"

text \<open>\<open>obtener_movimientos_cuenta\<close>: the entries touching the account, \<open>ORDER BY T.fecha ASC\<close>.\<close>

definition obtener_movimientos_cuenta :: "conexion \<Rightarrow> int \<Rightarrow> transaccion list" where
  "obtener_movimientos_cuenta db i =
     sort_key fecha (filter (\<lambda>t. cuenta_debito_id t = i \<or> cuenta_credito_id t = i)
                            (tabla_transacciones db))"

record estado_resultados =
  ingresos_totales :: rat
  gastos_totales :: rat
  utilidad_perdida_neta :: rat

definition calcular_estado_resultados :: "conexion \<Rightarrow> estado_resultados" where
  "calcular_estado_resultados db =
     (let saldos = calcular_saldos db;
          (ingresos, gastos) =
             fold (\<lambda>(i, d) (ingresos, gastos).
                     if sd_tipo d = ''INGRESO'' then (ingresos + \<bar>saldo d\<bar>, gastos)
                     else if sd_tipo d = ''GASTO'' then (ingresos, gastos + saldo d)
                     else (ingresos, gastos))
                  saldos (0, 0)
      in \<lparr>ingresos_totales = ingresos, gastos_totales = gastos,
          utilidad_perdida_neta = ingresos - gastos\<rparr>)"



subsection \<open>The trial balance (Balance de Comprobacion)\<close>








subsection \<open>The account ledger (Libro Mayor)\<close>

record fila_mayor =
  fm_fecha :: string
  fm_descripcion :: string
  fm_debito :: rat
  fm_credito :: rat
  fm_saldo_acumulado :: rat

record vista_mayor =
  mayor_tree :: "fila_mayor list"
  mayor_saldo :: rat

text \<open>The loop over \<open>movimientos\<close>, carrying \<open>saldo_acumulado\<close> and the rows inserted so far.\<close>

fun recorrer_movimientos ::
  "int \<Rightarrow> bool \<Rightarrow> rat \<Rightarrow> fila_mayor list \<Rightarrow> transaccion list \<Rightarrow> vista_mayor" where
  "recorrer_movimientos cid acreedor acum filas [] = \<lparr>mayor_tree = filas, mayor_saldo = acum\<rparr>"
| "recorrer_movimientos cid acreedor acum filas (t # ts) =
     (let monto_debito = (if cuenta_debito_id t = cid then monto t else 0);
          monto_credito = (if cuenta_credito_id t = cid then monto t else 0);
          acum' = (if acreedor then acum + (monto_credito - monto_debito)
                   else acum + (monto_debito - monto_credito))
      in recorrer_movimientos cid acreedor acum'
           (filas @ [\<lparr>fm_fecha = fecha t, fm_descripcion = descripcion t, fm_debito = monto_debito,
                      fm_credito = monto_credito, fm_saldo_acumulado = acum'\<rparr>]) ts)"

text \<open>
  \<open>ContabilidadGUI.actualizar_mayor_cuenta_seleccionada\<close>. The argument is what
  \<open>mayor_cuenta_map.get\<close> returned; a falsy id returns at once and leaves the view alone.
  Indexing the empty list of types raises \<open>IndexError\<close>, after the view was cleared.
\<close>

definition actualizar_mayor_cuenta_seleccionada ::
  "conexion \<Rightarrow> int option \<Rightarrow> vista_mayor \<Rightarrow> py_error + vista_mayor" where
  "actualizar_mayor_cuenta_seleccionada db cuenta vista =
     (case cuenta of
        None \<Rightarrow> Inr vista
      | Some cid \<Rightarrow>
          if cid = 0 then Inr vista
          else (let movimientos = obtener_movimientos_cuenta db cid;
                    saldos_iniciales = calcular_saldos db
                in case map (\<lambda>(i, d). sd_tipo d) (filter (\<lambda>(i, d). i = cid) saldos_iniciales) of
                     [] \<Rightarrow> Inl IndexError
                   | tipo_saldo # _ \<Rightarrow>
                       Inr (recorrer_movimientos cid (tipo_saldo \<in> set tipos_saldo_acreedor)
                              0 [] movimientos)))"

subsection \<open>Bulk import from a spreadsheet\<close>

text \<open>
  What \<open>pd.read_excel\<close> hands to the importer. A row holds the cells the loop reads:
  \<open>fx_descripcion\<close>, \<open>fx_cuenta_debito\<close> and \<open>fx_cuenta_credito\<close> are \<open>str(cell)\<close>;
  \<open>fx_monto\<close> says what \<open>pd.isna\<close> and \<open>float\<close> make of the cell (\<open>TextoNoNumerico\<close>
  raises \<open>ValueError\<close>, \<open>OtroValor\<close> raises another exception); an optional reference is
  \<open>None\<close> when its cell is NaN or its column is absent, and \<open>str(cell)\<close> otherwise.
\<close>

datatype celda_monto = Vacio | Numero rat | TextoNoNumerico | OtroValor

record fila_excel =
  fx_descripcion :: string
  fx_monto :: celda_monto
  fx_cuenta_debito :: string
  fx_cuenta_credito :: string
  fx_ref_doc :: "string option"
  fx_ref_banco :: "string option"

datatype lectura = NoEncontrado | ErrorLectura | Hoja "string list" "fila_excel list"

definition normalizar_columna :: "string \<Rightarrow> string" where
  "normalizar_columna col =
     upper (filter (\<lambda>c. c \<noteq> CHR ''.'') (map (\<lambda>c. if c = CHR '' '' then CHR ''_'' else c) (strip col)))"

definition required_cols :: "string list" where
  "required_cols = [''DESCRIPCION'', ''CUENTA_DEBITO'', ''CUENTA_CREDITO'', ''MONTO'']"

text \<open>
  The body of the row loop: \<open>Inl\<close> is the message appended to \<open>errores\<close>, \<open>Inr\<close> the
  connection after \<open>cursor.execute\<close>. \<open>if not debito_id\<close> rejects \<open>None\<close> and \<open>0\<close>.
\<close>

definition procesar_fila ::
  "(string \<times> int) list \<Rightarrow> bool \<Rightarrow> bool \<Rightarrow> string \<Rightarrow> nat \<Rightarrow> fila_excel \<Rightarrow> conexion
     \<Rightarrow> error_fila + conexion" where
  "procesar_fila mapa ref_doc_col ref_banco_col ahora index row db =
     (let desc = strip (fx_descripcion row) in
      case fx_monto row of
        Vacio \<Rightarrow> Inl (FormatoMonto (index + 2))
      | TextoNoNumerico \<Rightarrow> Inl (FormatoMonto (index + 2))
      | OtroValor \<Rightarrow> Inl (ErrorDesconocido (index + 2))
      | Numero m \<Rightarrow>
          (let debito_nombre = upper (strip (fx_cuenta_debito row));
               credito_nombre = upper (strip (fx_cuenta_credito row))
           in case map_of mapa debito_nombre of
                None \<Rightarrow> Inl (DebitoNoExiste (index + 2) debito_nombre)
              | Some debito_id \<Rightarrow>
                  if debito_id = 0 then Inl (DebitoNoExiste (index + 2) debito_nombre)
                  else (case map_of mapa credito_nombre of
                          None \<Rightarrow> Inl (CreditoNoExiste (index + 2) credito_nombre)
                        | Some credito_id \<Rightarrow>
                            if credito_id = 0 then Inl (CreditoNoExiste (index + 2) credito_nombre)
                            else (let ref_doc = (if ref_doc_col then map_option strip (fx_ref_doc row)
                                                 else None);
                                      ref_banco = (if ref_banco_col then map_option strip (fx_ref_banco row)
                                                   else None)
                                  in if m \<le> 0 then Inl (MontoNoPositivoFila (index + 2))
                                     else (case insert_transaccion ahora desc debito_id credito_id m
                                                  ref_doc ref_banco db of
                                             Inl IntegrityError \<Rightarrow> Inl (ErrorDesconocido (index + 2))
                                           | Inr db' \<Rightarrow> Inr db')))))"

record estado_importacion =
  ei_db :: conexion
  transacciones_importadas :: nat
  errores :: "error_fila list"

text \<open>\<open>for index, row in df.iterrows()\<close>; \<open>reloj index\<close> is the clock reading at that row.\<close>

fun recorrer_filas ::
  "(string \<times> int) list \<Rightarrow> bool \<Rightarrow> bool \<Rightarrow> (nat \<Rightarrow> string) \<Rightarrow> nat \<Rightarrow> estado_importacion
     \<Rightarrow> fila_excel list \<Rightarrow> estado_importacion" where
  "recorrer_filas mapa rd rb reloj index st [] = st"
| "recorrer_filas mapa rd rb reloj index st (row # rows) =
     recorrer_filas mapa rd rb reloj (Suc index)
       (case procesar_fila mapa rd rb (reloj index) index row (ei_db st) of
          Inr db' \<Rightarrow> st\<lparr>ei_db := db', transacciones_importadas := transacciones_importadas st + 1\<rparr>
        | Inl e \<Rightarrow> st\<lparr>errores := errores st @ [e]\<rparr>)
       rows"

definition importar_transacciones_excel :: "app \<Rightarrow> (nat \<Rightarrow> string) \<Rightarrow> lectura \<Rightarrow> resultado \<times> app" where
  "importar_transacciones_excel a reloj archivo =
     (case archivo of
        NoEncontrado \<Rightarrow> ((False, Some ArchivoNoEncontrado), a)
      | ErrorLectura \<Rightarrow> ((False, Some ErrorProcesarArchivo), a)
      | Hoja cols filas \<Rightarrow>
          (let columns = map normalizar_columna cols in
           if \<not> list_all (\<lambda>col. col \<in> set columns) required_cols
           then ((False, Some ColumnasFaltantes), a)
           else (let st = recorrer_filas (nombre_a_id a) (''REF_DOC'' \<in> set columns)
                            (''REF_BANCO'' \<in> set columns) reloj 0
                            \<lparr>ei_db = conn a, transacciones_importadas = 0, errores = []\<rparr> filas;
                     a' = a\<lparr>conn := ei_db st\<rparr>
                 in if errores st \<noteq> []
                    then ((False, Some (ImportacionParcial (transacciones_importadas st)
                                          (length (errores st)) (take 10 (errores st))
                                          (if length (errores st) > 10
                                           then Some (length (errores st) - 10) else None))), a')
                    else ((True, Some (ImportacionExitosa (transacciones_importadas st))), a'))))"

subsection \<open>Sequences of calls\<close>

datatype operacion =
    CrearCuenta string string
  | RegistrarTransaccion string string int int rat string string
  | EliminarTransaccion int
  | EliminarCuenta int

fun ejecutar_operacion :: "app \<Rightarrow> operacion \<Rightarrow> resultado \<times> app" where
  "ejecutar_operacion a (CrearCuenta n t) = crear_cuenta a n t"
| "ejecutar_operacion a (RegistrarTransaccion ahora d deb cre m rd rb) =
     registrar_transaccion a ahora d deb cre m rd rb"
| "ejecutar_operacion a (EliminarTransaccion i) = eliminar_transaccion a i"
| "ejecutar_operacion a (EliminarCuenta i) = eliminar_cuenta a i"

fun ejecutar_operaciones :: "app \<Rightarrow> operacion list \<Rightarrow> app" where
  "ejecutar_operaciones a [] = a"
| "ejecutar_operaciones a (op # ops) = ejecutar_operaciones (snd (ejecutar_operacion a op)) ops"





subsection \<open>The reports in the words of the specification\<close>

text \<open>The sum of \<open>amount\<close> over the entries where the account is the debit leg, and the credit leg.\<close>

definition suma_debitos :: "conexion \<Rightarrow> int \<Rightarrow> rat" where
  "suma_debitos db i = sum_list (map monto (filter (\<lambda>t. cuenta_debito_id t = i) (tabla_transacciones db)))"

definition suma_creditos :: "conexion \<Rightarrow> int \<Rightarrow> rat" where
  "suma_creditos db i = sum_list (map monto (filter (\<lambda>t. cuenta_credito_id t = i) (tabla_transacciones db)))"

text \<open>\<open>debitAmount\<close>, \<open>creditAmount\<close> and the step of the running balance for one movement.\<close>

definition debit_amount :: "int \<Rightarrow> transaccion \<Rightarrow> rat" where
  "debit_amount cid t = (if cuenta_debito_id t = cid then monto t else 0)"

definition credit_amount :: "int \<Rightarrow> transaccion \<Rightarrow> rat" where
  "credit_amount cid t = (if cuenta_credito_id t = cid then monto t else 0)"

definition paso_saldo :: "string \<Rightarrow> int \<Rightarrow> transaccion \<Rightarrow> rat" where
  "paso_saldo ty cid t =
     (if ty \<in> {''PASIVO'', ''CAPITAL'', ''INGRESO''} then credit_amount cid t - debit_amount cid t
      else debit_amount cid t - credit_amount cid t)"


text \<open>Primary keys are unique, and every entry names two rows of \<open>Cuentas\<close>.\<close>

definition ids_unicos :: "conexion \<Rightarrow> bool" where
  "ids_unicos db \<longleftrightarrow> distinct (map cuenta_id (tabla_cuentas db))"





text \<open>
  The outcome of every row of a sheet against the connection as it is before the import:
  the messages of the rejected rows, and the entries of the admitted rows (with the
  identifier, which the table assigns, set aside), both in row order.
\<close>

definition sin_id :: "transaccion \<Rightarrow> transaccion" where
  "sin_id t = t\<lparr>trans_id := 0\<rparr>"

definition errores_filas ::
  "(string \<times> int) list \<Rightarrow> bool \<Rightarrow> bool \<Rightarrow> (nat \<Rightarrow> string) \<Rightarrow> conexion \<Rightarrow> nat
     \<Rightarrow> fila_excel list \<Rightarrow> error_fila list" where
  "errores_filas mapa rd rb reloj db i rows =
     concat (map (\<lambda>(k, row). case procesar_fila mapa rd rb (reloj k) k row db of
                                  Inl e \<Rightarrow> [e] | Inr db' \<Rightarrow> [])
                 (enumerate i rows))"

definition entradas_filas ::
  "(string \<times> int) list \<Rightarrow> bool \<Rightarrow> bool \<Rightarrow> (nat \<Rightarrow> string) \<Rightarrow> conexion \<Rightarrow> nat
     \<Rightarrow> fila_excel list \<Rightarrow> transaccion list" where
  "entradas_filas mapa rd rb reloj db i rows =
     concat (map (\<lambda>(k, row). case procesar_fila mapa rd rb (reloj k) k row db of
                                  Inl e \<Rightarrow> [] | Inr db' \<Rightarrow> [sin_id (last (tabla_transacciones db'))])
                 (enumerate i rows))"


subsection \<open>Example ledgers\<close>

text \<open>
  The scenario of the specification: accounts CASH (ACTIVO), SALES (INGRESO) and RENT (GASTO)
  are created in a new database, and a fourth account EQUIPO (ACTIVO) that no entry will
  name; then 100 is debited to CASH and credited to SALES, and 40 is debited to RENT and
  credited to CASH.
\<close>

definition cuentas_ejemplo :: "operacion list" where
  "cuentas_ejemplo =
     [CrearCuenta ''cash'' ''activo'', CrearCuenta ''sales'' ''ingreso'',
      CrearCuenta ''rent'' ''gasto'', CrearCuenta ''equipo'' ''activo'']"

definition registros_ejemplo :: "operacion list" where
  "registros_ejemplo =
     [RegistrarTransaccion ''2024-03-01 09:00:00'' ''venta'' 1 2 100 [] [],
      RegistrarTransaccion ''2024-03-02 09:00:00'' ''alquiler'' 3 1 40 [] []]"

definition app_cuentas_ejemplo :: app where
  "app_cuentas_ejemplo = ejecutar_operaciones (init_app [] []) cuentas_ejemplo"

definition operaciones_ejemplo :: "operacion list" where
  "operaciones_ejemplo = cuentas_ejemplo @ registros_ejemplo"

definition app_ejemplo :: app where
  "app_ejemplo = ejecutar_operaciones (init_app [] []) operaciones_ejemplo"







text \<open>
  A sheet of three rows for the accounts of the scenario; the second row names a debit
  account that does not exist.
\<close>

definition columnas_ejemplo :: "string list" where
  "columnas_ejemplo = [''Descripcion'', ''Cuenta Debito'', ''Cuenta Credito'', ''Monto'']"

definition filas_ejemplo :: "fila_excel list" where
  "filas_ejemplo =
     [\<lparr>fx_descripcion = ''venta'', fx_monto = Numero 100, fx_cuenta_debito = ''cash'',
       fx_cuenta_credito = ''sales'', fx_ref_doc = None, fx_ref_banco = None\<rparr>,
      \<lparr>fx_descripcion = ''compra'', fx_monto = Numero 25, fx_cuenta_debito = ''banco'',
       fx_cuenta_credito = ''cash'', fx_ref_doc = None, fx_ref_banco = None\<rparr>,
      \<lparr>fx_descripcion = ''alquiler'', fx_monto = Numero 40, fx_cuenta_debito = ''rent'',
       fx_cuenta_credito = ''cash'', fx_ref_doc = None, fx_ref_banco = None\<rparr>]"

definition reloj_ejemplo :: "nat \<Rightarrow> string" where
  "reloj_ejemplo k = ''2024-03-05 12:00:00''"

section \<open>Properties\<close>

subsection \<open>Net balances\<close>

lemma dict_get_suma_por_grupo:
  "dict_get (suma_por_grupo acc filas) k 0 =
     dict_get acc k 0 + sum_list (map snd (filter (\<lambda>r. fst r = k) filas))"
proof (induction acc filas rule: suma_por_grupo.induct)
  case (1 acc)
  then show ?case by simp
next
  case (2 acc k' v filas)
  then show ?case
    by (auto simp: dict_get_def AList.update_conv' split: option.splits)
qed

lemma debitos_get:
  "dict_get (suma_por_grupo [] (map (\<lambda>t. (cuenta_debito_id t, monto t)) ts)) i 0 =
     sum_list (map monto (filter (\<lambda>t. cuenta_debito_id t = i) ts))"
  by (simp add: dict_get_suma_por_grupo filter_map comp_def) (simp add: dict_get_def)

lemma creditos_get:
  "dict_get (suma_por_grupo [] (map (\<lambda>t. (cuenta_credito_id t, monto t)) ts)) i 0 =
     sum_list (map monto (filter (\<lambda>t. cuenta_credito_id t = i) ts))"
  by (simp add: dict_get_suma_por_grupo filter_map comp_def) (simp add: dict_get_def)

lemma fold_update_keys:
  "fst ` set (fold (\<lambda>c s. AList.update (f c) (g c) s) cs s0) = f ` set cs \<union> fst ` set s0"
  by (induction cs arbitrary: s0) (auto simp: AList.dom_update)

lemma fold_update_distinct:
  "distinct (map fst s0) \<Longrightarrow> distinct (map fst (fold (\<lambda>c s. AList.update (f c) (g c) s) cs s0))"
  by (induction cs arbitrary: s0) (auto simp: AList.distinct_update)

lemma update_append_new: "k \<notin> fst ` set al \<Longrightarrow> AList.update k v al = al @ [(k, v)]"
  by (induction al) auto

lemma fold_update_distinct_eq:
  "distinct (map f cs) \<Longrightarrow> f ` set cs \<inter> fst ` set s0 = {} \<Longrightarrow>
   fold (\<lambda>c s. AList.update (f c) (g c) s) cs s0 = s0 @ map (\<lambda>c. (f c, g c)) cs"
proof (induction cs arbitrary: s0)
  case Nil
  then show ?case by simp
next
  case (Cons c cs)
  have k: "f c \<notin> fst ` set s0"
    using Cons.prems by auto
  have "fold (\<lambda>c s. AList.update (f c) (g c) s) cs (s0 @ [(f c, g c)]) =
        (s0 @ [(f c, g c)]) @ map (\<lambda>c. (f c, g c)) cs"
    using Cons.prems by (intro Cons.IH) auto
  then show ?case
    using k by (simp add: update_append_new)
qed

lemma calcular_saldos_alt:
  "calcular_saldos db =
     map (\<lambda>(i, d). (i, d\<lparr>saldo := suma_debitos db i - suma_creditos db i\<rparr>))
       (fold (\<lambda>c s. AList.update (cuenta_id c) \<lparr>sd_nombre = nombre c, sd_tipo = tipo c, saldo = 0\<rparr> s)
          (tabla_cuentas db) [])"
  by (simp add: calcular_saldos_def Let_def debitos_get creditos_get suma_debitos_def suma_creditos_def)

lemma calcular_saldos_distinct:
  "ids_unicos db \<Longrightarrow>
   calcular_saldos db =
     map (\<lambda>c. (cuenta_id c, \<lparr>sd_nombre = nombre c, sd_tipo = tipo c,
                              saldo = suma_debitos db (cuenta_id c) - suma_creditos db (cuenta_id c)\<rparr>))
       (tabla_cuentas db)"
  unfolding calcular_saldos_alt ids_unicos_def
  by (subst fold_update_distinct_eq) auto

lemma calcular_saldos_keys:
  "fst ` set (calcular_saldos db) = cuenta_id ` set (tabla_cuentas db)"
proof -
  have "fst ` set (calcular_saldos db) =
        fst ` set (fold (\<lambda>c s. AList.update (cuenta_id c)
                                  \<lparr>sd_nombre = nombre c, sd_tipo = tipo c, saldo = 0\<rparr> s)
                     (tabla_cuentas db) [])"
    unfolding calcular_saldos_alt by (force simp: image_iff split: prod.splits)
  then show ?thesis
    by (simp add: fold_update_keys)
qed

lemma calcular_saldos_saldo:
  "(i, d) \<in> set (calcular_saldos db) \<Longrightarrow> saldo d = suma_debitos db i - suma_creditos db i"
  unfolding calcular_saldos_alt by auto

lemma suma_sin_movimientos:
  "\<forall>t \<in> set (tabla_transacciones db). cuenta_debito_id t \<noteq> i \<and> cuenta_credito_id t \<noteq> i \<Longrightarrow>
   suma_debitos db i = 0 \<and> suma_creditos db i = 0"
  unfolding suma_debitos_def suma_creditos_def
  by (simp add: filter_False)

text \<open>
  Claim C3. For every account of the registry, \<open>calcular_saldos\<close> holds an entry whose
  \<open>saldo\<close> is the sum of the amounts of the entries that debit the account minus the sum of
  the amounts of the entries that credit it; when no entry names the account, that balance
  is 0.
\<close>

theorem calcular_saldos_saldo_neto:
  assumes "i \<in> cuenta_id ` set (tabla_cuentas db)"
  shows "\<exists>d. map_of (calcular_saldos db) i = Some d \<and>
             saldo d = suma_debitos db i - suma_creditos db i \<and>
             ((\<forall>t \<in> set (tabla_transacciones db). cuenta_debito_id t \<noteq> i \<and> cuenta_credito_id t \<noteq> i)
                \<longrightarrow> saldo d = 0)"
proof -
  from assms have "i \<in> fst ` set (calcular_saldos db)"
    by (simp add: calcular_saldos_keys)
  then obtain d where d: "map_of (calcular_saldos db) i = Some d"
    by (metis domD dom_map_of_conv_image_fst)
  then have "(i, d) \<in> set (calcular_saldos db)"
    by (rule map_of_SomeD)
  then have s: "saldo d = suma_debitos db i - suma_creditos db i"
    by (rule calcular_saldos_saldo)
  have "(\<forall>t \<in> set (tabla_transacciones db). cuenta_debito_id t \<noteq> i \<and> cuenta_credito_id t \<noteq> i)
           \<longrightarrow> saldo d = 0"
    using s suma_sin_movimientos[of db i] by auto
  with d s show ?thesis
    by blast
qed

theorem calcular_saldos_saldo_neto_witness:
  "1 \<in> cuenta_id ` set (tabla_cuentas (conn app_ejemplo)) \<and>
   (\<exists>d. map_of (calcular_saldos (conn app_ejemplo)) 1 = Some d \<and> saldo d = 100 - 40) \<and>
   4 \<in> cuenta_id ` set (tabla_cuentas (conn app_ejemplo)) \<and>
   list_all (\<lambda>t. cuenta_debito_id t \<noteq> 4 \<and> cuenta_credito_id t \<noteq> 4)
     (tabla_transacciones (conn app_ejemplo)) \<and>
   (\<exists>d. map_of (calcular_saldos (conn app_ejemplo)) 4 = Some d \<and> saldo d = 0)"
proof -
  have h1: "1 \<in> cuenta_id ` set (tabla_cuentas (conn app_ejemplo))"
    by code_simp
  have v1: "suma_debitos (conn app_ejemplo) 1 - suma_creditos (conn app_ejemplo) 1 = 100 - 40"
    by code_simp
  have h4: "4 \<in> cuenta_id ` set (tabla_cuentas (conn app_ejemplo))"
    by code_simp
  have n4: "\<forall>t \<in> set (tabla_transacciones (conn app_ejemplo)).
              cuenta_debito_id t \<noteq> 4 \<and> cuenta_credito_id t \<noteq> 4"
    by code_simp
  from calcular_saldos_saldo_neto [OF h1] v1
  have c1: "\<exists>d. map_of (calcular_saldos (conn app_ejemplo)) 1 = Some d \<and> saldo d = 100 - 40"
    by auto
  from calcular_saldos_saldo_neto [OF h4] n4
  have c4: "\<exists>d. map_of (calcular_saldos (conn app_ejemplo)) 4 = Some d \<and> saldo d = 0"
    by blast
  from n4 have l4: "list_all (\<lambda>t. cuenta_debito_id t \<noteq> 4 \<and> cuenta_credito_id t \<noteq> 4)
                     (tabla_transacciones (conn app_ejemplo))"
    by (simp add: list_all_iff)
  from h1 c1 h4 l4 c4 show ?thesis
    by blast
qed

subsection \<open>Income statement and balance sheet totals\<close>

lemma fold_estado_resultados:
  "fold (\<lambda>(i, d) (ingresos, gastos).
           if sd_tipo d = ''INGRESO'' then (ingresos + \<bar>saldo d\<bar>, gastos)
           else if sd_tipo d = ''GASTO'' then (ingresos, gastos + saldo d)
           else (ingresos, gastos)) saldos (a, b) =
   (a + sum_list (map (\<lambda>(i, d). \<bar>saldo d\<bar>) (filter (\<lambda>(i, d). sd_tipo d = ''INGRESO'') saldos)),
    b + sum_list (map (\<lambda>(i, d). saldo d) (filter (\<lambda>(i, d). sd_tipo d = ''GASTO'') saldos)))"
  by (induction saldos arbitrary: a b) (auto simp: algebra_simps)




text \<open>
  Claim C9. The income statement adds the absolute net balance of every INGRESO account to
  \<open>ingresos_totales\<close>, adds the net balance itself, sign included, of every GASTO account
  to \<open>gastos_totales\<close>, and reports their difference as the net result.
\<close>

theorem estado_resultados_signos:
  "ingresos_totales (calcular_estado_resultados db) =
     sum_list (map (\<lambda>(i, d). \<bar>saldo d\<bar>)
                   (filter (\<lambda>(i, d). sd_tipo d = ''INGRESO'') (calcular_saldos db))) \<and>
   gastos_totales (calcular_estado_resultados db) =
     sum_list (map (\<lambda>(i, d). saldo d)
                   (filter (\<lambda>(i, d). sd_tipo d = ''GASTO'') (calcular_saldos db))) \<and>
   utilidad_perdida_neta (calcular_estado_resultados db) =
     ingresos_totales (calcular_estado_resultados db) - gastos_totales (calcular_estado_resultados db)"
  by (simp add: calcular_estado_resultados_def Let_def fold_estado_resultados)

subsection \<open>The sum of all net balances\<close>







subsection \<open>Consistency of the ledger is kept by every operation\<close>













subsection \<open>The accounting equation\<close>






subsection \<open>The trial balance\<close>




subsection \<open>The reports on the example ledgers\<close>

theorem estado_resultados_signos_witness:
  "ingresos_totales (calcular_estado_resultados (conn app_ejemplo)) = 100 \<and>
   gastos_totales (calcular_estado_resultados (conn app_ejemplo)) = 40 \<and>
   utilidad_perdida_neta (calcular_estado_resultados (conn app_ejemplo)) = 60"
proof -
  have i: "sum_list (map (\<lambda>(i, d). \<bar>saldo d\<bar>)
             (filter (\<lambda>(i, d). sd_tipo d = ''INGRESO'') (calcular_saldos (conn app_ejemplo)))) = 100"
    by code_simp
  have g: "sum_list (map (\<lambda>(i, d). saldo d)
             (filter (\<lambda>(i, d). sd_tipo d = ''GASTO'') (calcular_saldos (conn app_ejemplo)))) = 40"
    by code_simp
  from estado_resultados_signos [of "conn app_ejemplo"] i g show ?thesis
    by simp
qed





subsection \<open>Recording an entry\<close>

lemma dropWhile_partes:
  "\<exists>pre. s = pre @ dropWhile P s \<and> list_all P pre"
  by (rule exI[of _ "takeWhile P s"]) (auto simp: list_all_iff dest: set_takeWhileD)

lemma strip_partes:
  "\<exists>pre suf. s = pre @ strip s @ suf \<and> list_all es_espacio pre \<and> list_all es_espacio suf"
proof -
  let ?m = "dropWhile es_espacio s"
  obtain pre where pre: "s = pre @ ?m" "list_all es_espacio pre"
    using dropWhile_partes[of s es_espacio] by blast
  obtain q where q: "rev ?m = q @ dropWhile es_espacio (rev ?m)" "list_all es_espacio q"
    using dropWhile_partes[of "rev ?m" es_espacio] by blast
  have "?m = rev (dropWhile es_espacio (rev ?m)) @ rev q"
    using q(1) by (metis rev_append rev_rev_ident)
  then have "s = pre @ strip s @ rev q"
    using pre(1) by (simp add: strip_def)
  moreover have "list_all es_espacio (rev q)"
    using q(2) by (simp add: list_all_iff)
  ultimately show ?thesis
    using pre(2) by blast
qed

lemma strip_extremos:
  "strip s \<noteq> [] \<Longrightarrow> \<not> es_espacio (hd (strip s)) \<and> \<not> es_espacio (last (strip s))"
proof -
  assume ne: "strip s \<noteq> []"
  let ?m = "dropWhile es_espacio s"
  let ?r = "dropWhile es_espacio (rev ?m)"
  have r: "?r \<noteq> []" using ne by (simp add: strip_def)
  have l: "\<not> es_espacio (hd ?r)" using r by (rule hd_dropWhile)
  have mne: "?m \<noteq> []"
  proof
    assume "?m = []"
    then have "?r = dropWhile es_espacio (rev [])" by (rule arg_cong)
    with r show False by simp
  qed
  have hm: "\<not> es_espacio (hd ?m)" using mne by (rule hd_dropWhile)
  have "last (strip s) = hd ?r" using r by (simp add: strip_def last_rev)
  moreover have "hd (strip s) = hd ?m"
  proof -
    have "hd (strip s) = last ?r" using r by (simp add: strip_def hd_rev)
    also have "\<dots> = last (rev ?m)"
      using r by (metis append_Nil2 last_appendR takeWhile_dropWhile_id)
    also have "\<dots> = hd ?m" using mne by (simp add: last_rev)
    finally show ?thesis .
  qed
  ultimately show ?thesis using l hm by simp
qed

lemma diario_contiene:
  assumes "t \<in> set (tabla_transacciones db)"
    and "cd \<in> set (tabla_cuentas db)" "cuenta_id cd = cuenta_debito_id t"
    and "cc \<in> set (tabla_cuentas db)" "cuenta_id cc = cuenta_credito_id t"
  shows "\<lparr>fd_id = trans_id t, fd_fecha = fecha t, fd_descripcion = descripcion t,
          fd_monto = monto t, fd_nombre_debito = nombre cd, fd_nombre_credito = nombre cc,
          fd_referencia_documento = referencia_documento t,
          fd_referencia_banco = referencia_banco t\<rparr> \<in> set (obtener_transacciones_diario db)"
  using assms unfolding obtener_transacciones_diario_def
  by (simp add: image_iff) (metis (mono_tags, lifting))

text \<open>
  Claim C4. The claim is that \<open>registrar_transaccion\<close> fails, and stores nothing, when an
  account id is not in the registry. On the connection the program opens, the call below
  names accounts 1 and 2 of an empty registry, reports success and stores the entry: the
  function checks no id itself, and the foreign keys of the table are not enforced.
\<close>

theorem registrar_transaccion_cuenta_desconocida:
  "tabla_cuentas (conn (init_app [] [])) = [] \<and>
   registrar_transaccion (init_app [] []) ''2024-03-01 09:00:00'' ''venta'' 1 2 100 [] [] =
     ((True, None),
      \<lparr>conn = \<lparr>tabla_cuentas = [],
                tabla_transacciones =
                  [\<lparr>trans_id = 1, fecha = ''2024-03-01 09:00:00'', descripcion = ''venta'',
                    cuenta_debito_id = 1, cuenta_credito_id = 2, monto = 100,
                    referencia_documento = None, referencia_banco = None\<rparr>],
                foreign_keys = False\<rparr>,
       nombre_a_id = []\<rparr>)"
  by code_simp

text \<open>
  Claim C5. \<open>registrar_transaccion\<close> fails with the same-account message when the two ids
  are equal, and fails when the amount is zero or negative (with the amount message when the
  ids differ); in both cases the state is returned unchanged. For two different ids of the
  registry and a positive amount it succeeds and appends one entry, which the journal view
  lists; the description and the two references are stored stripped (the input is the stored
  text between two runs of whitespace, and the stored text neither starts nor ends with
  whitespace), and a reference that is empty is stored as absent.
\<close>

theorem registrar_transaccion_validacion:
  "(deb = cre \<longrightarrow>
      registrar_transaccion a ahora d deb cre m rd rb = ((False, Some MismasCuentas), a)) \<and>
   (m \<le> 0 \<longrightarrow>
      fst (fst (registrar_transaccion a ahora d deb cre m rd rb)) = False \<and>
      snd (registrar_transaccion a ahora d deb cre m rd rb) = a \<and>
      (deb \<noteq> cre \<longrightarrow>
         snd (fst (registrar_transaccion a ahora d deb cre m rd rb)) = Some MontoNoPositivo)) \<and>
   (deb \<noteq> cre \<and> 0 < m \<and>
    deb \<in> set (map cuenta_id (tabla_cuentas (conn a))) \<and>
    cre \<in> set (map cuenta_id (tabla_cuentas (conn a))) \<longrightarrow>
      (let t = \<lparr>trans_id = siguiente_id (map trans_id (tabla_transacciones (conn a))),
                 fecha = ahora, descripcion = strip d, cuenta_debito_id = deb,
                 cuenta_credito_id = cre, monto = m,
                 referencia_documento = (if strip rd = [] then None else Some (strip rd)),
                 referencia_banco = (if strip rb = [] then None else Some (strip rb))\<rparr>;
           a' = a\<lparr>conn := (conn a)\<lparr>tabla_transacciones := tabla_transacciones (conn a) @ [t]\<rparr>\<rparr>
       in registrar_transaccion a ahora d deb cre m rd rb = ((True, None), a') \<and>
          (\<exists>f \<in> set (obtener_transacciones_diario (conn a')).
             fd_id f = trans_id t \<and> fd_fecha f = ahora \<and> fd_descripcion f = strip d \<and>
             fd_monto f = m \<and> fd_referencia_documento f = referencia_documento t \<and>
             fd_referencia_banco f = referencia_banco t) \<and>
          (rd = [] \<longrightarrow> referencia_documento t = None) \<and>
          (rb = [] \<longrightarrow> referencia_banco t = None))) \<and>
   (\<forall>s \<in> {d, rd, rb}.
      (\<exists>pre suf. s = pre @ strip s @ suf \<and> list_all es_espacio pre \<and> list_all es_espacio suf) \<and>
      (strip s \<noteq> [] \<longrightarrow> \<not> es_espacio (hd (strip s)) \<and> \<not> es_espacio (last (strip s))))"
proof -
  have p1: "deb = cre \<longrightarrow>
      registrar_transaccion a ahora d deb cre m rd rb = ((False, Some MismasCuentas), a)"
    by (simp add: registrar_transaccion_def)
  have p2: "m \<le> 0 \<longrightarrow>
      fst (fst (registrar_transaccion a ahora d deb cre m rd rb)) = False \<and>
      snd (registrar_transaccion a ahora d deb cre m rd rb) = a \<and>
      (deb \<noteq> cre \<longrightarrow>
         snd (fst (registrar_transaccion a ahora d deb cre m rd rb)) = Some MontoNoPositivo)"
    by (simp add: registrar_transaccion_def)
  have p4: "\<forall>s \<in> {d, rd, rb}.
      (\<exists>pre suf. s = pre @ strip s @ suf \<and> list_all es_espacio pre \<and> list_all es_espacio suf) \<and>
      (strip s \<noteq> [] \<longrightarrow> \<not> es_espacio (hd (strip s)) \<and> \<not> es_espacio (last (strip s)))"
    using strip_partes strip_extremos by blast
  have p3: "deb \<noteq> cre \<and> 0 < m \<and>
    deb \<in> set (map cuenta_id (tabla_cuentas (conn a))) \<and>
    cre \<in> set (map cuenta_id (tabla_cuentas (conn a))) \<longrightarrow>
      (let t = \<lparr>trans_id = siguiente_id (map trans_id (tabla_transacciones (conn a))),
                 fecha = ahora, descripcion = strip d, cuenta_debito_id = deb,
                 cuenta_credito_id = cre, monto = m,
                 referencia_documento = (if strip rd = [] then None else Some (strip rd)),
                 referencia_banco = (if strip rb = [] then None else Some (strip rb))\<rparr>;
           a' = a\<lparr>conn := (conn a)\<lparr>tabla_transacciones := tabla_transacciones (conn a) @ [t]\<rparr>\<rparr>
       in registrar_transaccion a ahora d deb cre m rd rb = ((True, None), a') \<and>
          (\<exists>f \<in> set (obtener_transacciones_diario (conn a')).
             fd_id f = trans_id t \<and> fd_fecha f = ahora \<and> fd_descripcion f = strip d \<and>
             fd_monto f = m \<and> fd_referencia_documento f = referencia_documento t \<and>
             fd_referencia_banco f = referencia_banco t) \<and>
          (rd = [] \<longrightarrow> referencia_documento t = None) \<and>
          (rb = [] \<longrightarrow> referencia_banco t = None))"
  proof
    assume h: "deb \<noteq> cre \<and> 0 < m \<and>
      deb \<in> set (map cuenta_id (tabla_cuentas (conn a))) \<and>
      cre \<in> set (map cuenta_id (tabla_cuentas (conn a)))"
    define t where "t = \<lparr>trans_id = siguiente_id (map trans_id (tabla_transacciones (conn a))),
                 fecha = ahora, descripcion = strip d, cuenta_debito_id = deb,
                 cuenta_credito_id = cre, monto = m,
                 referencia_documento = (if strip rd = [] then None else Some (strip rd)),
                 referencia_banco = (if strip rb = [] then None else Some (strip rb))\<rparr>"
    define a' where "a' = a\<lparr>conn := (conn a)\<lparr>tabla_transacciones := tabla_transacciones (conn a) @ [t]\<rparr>\<rparr>"
    have r: "registrar_transaccion a ahora d deb cre m rd rb = ((True, None), a')"
      using h by (simp add: registrar_transaccion_def ejecutar_consulta_def insert_transaccion_def
          o_none_def t_def a'_def)
    from h obtain cd cc where c: "cd \<in> set (tabla_cuentas (conn a'))" "cuenta_id cd = cuenta_debito_id t"
      "cc \<in> set (tabla_cuentas (conn a'))" "cuenta_id cc = cuenta_credito_id t"
      by (auto simp: a'_def t_def)
    have tin: "t \<in> set (tabla_transacciones (conn a'))"
      by (simp add: a'_def)
    have "\<exists>f \<in> set (obtener_transacciones_diario (conn a')).
             fd_id f = trans_id t \<and> fd_fecha f = ahora \<and> fd_descripcion f = strip d \<and>
             fd_monto f = m \<and> fd_referencia_documento f = referencia_documento t \<and>
             fd_referencia_banco f = referencia_banco t"
      by (rule bexI[OF _ diario_contiene[OF tin c]]) (simp add: t_def)
    moreover have "(rd = [] \<longrightarrow> referencia_documento t = None) \<and> (rb = [] \<longrightarrow> referencia_banco t = None)"
      by (simp add: t_def strip_def)
    ultimately show "(let t = \<lparr>trans_id = siguiente_id (map trans_id (tabla_transacciones (conn a))),
                 fecha = ahora, descripcion = strip d, cuenta_debito_id = deb,
                 cuenta_credito_id = cre, monto = m,
                 referencia_documento = (if strip rd = [] then None else Some (strip rd)),
                 referencia_banco = (if strip rb = [] then None else Some (strip rb))\<rparr>;
           a' = a\<lparr>conn := (conn a)\<lparr>tabla_transacciones := tabla_transacciones (conn a) @ [t]\<rparr>\<rparr>
       in registrar_transaccion a ahora d deb cre m rd rb = ((True, None), a') \<and>
          (\<exists>f \<in> set (obtener_transacciones_diario (conn a')).
             fd_id f = trans_id t \<and> fd_fecha f = ahora \<and> fd_descripcion f = strip d \<and>
             fd_monto f = m \<and> fd_referencia_documento f = referencia_documento t \<and>
             fd_referencia_banco f = referencia_banco t) \<and>
          (rd = [] \<longrightarrow> referencia_documento t = None) \<and>
          (rb = [] \<longrightarrow> referencia_banco t = None))"
      using r unfolding Let_def t_def[symmetric] a'_def[symmetric] by blast
  qed
  from p1 p2 p3 p4 show ?thesis by blast
qed

theorem registrar_transaccion_validacion_witness:
  "registrar_transaccion app_cuentas_ejemplo ''2024-03-01 09:00:00'' '' venta '' 1 1 100 [] [] =
     ((False, Some MismasCuentas), app_cuentas_ejemplo) \<and>
   fst (registrar_transaccion app_cuentas_ejemplo ''2024-03-01 09:00:00'' '' venta '' 1 2 0 [] []) =
     (False, Some MontoNoPositivo) \<and>
   snd (registrar_transaccion app_cuentas_ejemplo ''2024-03-01 09:00:00'' '' venta '' 1 2 0 [] []) =
     app_cuentas_ejemplo \<and>
   1 \<in> set (map cuenta_id (tabla_cuentas (conn app_cuentas_ejemplo))) \<and>
   2 \<in> set (map cuenta_id (tabla_cuentas (conn app_cuentas_ejemplo))) \<and>
   fst (registrar_transaccion app_cuentas_ejemplo ''2024-03-01 09:00:00'' '' venta '' 1 2 100 [] '' 77 '') =
     (True, None) \<and>
   tabla_transacciones (conn (snd (registrar_transaccion app_cuentas_ejemplo
       ''2024-03-01 09:00:00'' '' venta '' 1 2 100 [] '' 77 ''))) =
     [\<lparr>trans_id = 1, fecha = ''2024-03-01 09:00:00'', descripcion = ''venta'',
       cuenta_debito_id = 1, cuenta_credito_id = 2, monto = 100,
       referencia_documento = None, referencia_banco = Some ''77''\<rparr>]"
proof -
  let ?a = app_cuentas_ejemplo and ?f = "''2024-03-01 09:00:00''" and ?d = "'' venta ''"
  have h1: "1 \<in> set (map cuenta_id (tabla_cuentas (conn ?a)))" by code_simp
  have h2: "2 \<in> set (map cuenta_id (tabla_cuentas (conn ?a)))" by code_simp
  have e: "tabla_transacciones (conn ?a) = []" by code_simp
  have s1: "strip ?d = ''venta''" by code_simp
  have s2: "strip '' 77 '' = ''77''" by code_simp
  have s3: "strip [] = []" by code_simp
  have c1: "registrar_transaccion ?a ?f ?d 1 1 100 [] [] = ((False, Some MismasCuentas), ?a)"
    using registrar_transaccion_validacion [of 1 1 ?a ?f ?d 100 "[]" "[]"] by simp
  have c2: "fst (registrar_transaccion ?a ?f ?d 1 2 0 [] []) = (False, Some MontoNoPositivo) \<and>
            snd (registrar_transaccion ?a ?f ?d 1 2 0 [] []) = ?a"
    using registrar_transaccion_validacion [of 1 2 ?a ?f ?d 0 "[]" "[]"]
    by (simp add: prod_eq_iff)
  have c3: "registrar_transaccion ?a ?f ?d 1 2 100 [] '' 77 '' =
      ((True, None),
       ?a\<lparr>conn := (conn ?a)\<lparr>tabla_transacciones :=
          [\<lparr>trans_id = 1, fecha = ?f, descripcion = ''venta'',
            cuenta_debito_id = 1, cuenta_credito_id = 2, monto = 100,
            referencia_documento = None, referencia_banco = Some ''77''\<rparr>]\<rparr>\<rparr>)"
    using registrar_transaccion_validacion [of 1 2 ?a ?f ?d 100 "[]" "'' 77 ''"] h1 h2
    by (simp add: Let_def e s1 s2 s3 siguiente_id_def)
  from c1 c2 c3 h1 h2 show ?thesis
    by simp
qed

subsection \<open>Deleting accounts and entries\<close>

text \<open>
  Claim C6. \<open>eliminar_cuenta\<close> fails, with the state unchanged, whenever an entry names the
  account as its debit or credit leg; when no entry names it, the call succeeds, the account
  is no longer in the registry and the journal is as before.
\<close>

theorem eliminar_cuenta_guardia:
  "((\<exists>t \<in> set (tabla_transacciones (conn a)). cuenta_debito_id t = i \<or> cuenta_credito_id t = i) \<longrightarrow>
      eliminar_cuenta a i = ((False, Some CuentaConTransacciones), a)) \<and>
   (\<not> (\<exists>t \<in> set (tabla_transacciones (conn a)). cuenta_debito_id t = i \<or> cuenta_credito_id t = i) \<longrightarrow>
      fst (eliminar_cuenta a i) = (True, Some CuentaEliminada) \<and>
      tabla_cuentas (conn (snd (eliminar_cuenta a i))) =
        filter (\<lambda>c. cuenta_id c \<noteq> i) (tabla_cuentas (conn a)) \<and>
      i \<notin> cuenta_id ` set (tabla_cuentas (conn (snd (eliminar_cuenta a i)))) \<and>
      tabla_transacciones (conn (snd (eliminar_cuenta a i))) = tabla_transacciones (conn a))"
  by (auto simp: eliminar_cuenta_def Let_def ejecutar_consulta_def delete_cuenta_def
      filter_empty_conv)

theorem eliminar_cuenta_guardia_witness:
  "list_ex (\<lambda>t. cuenta_debito_id t = 1 \<or> cuenta_credito_id t = 1) (tabla_transacciones (conn app_ejemplo)) \<and>
   eliminar_cuenta app_ejemplo 1 = ((False, Some CuentaConTransacciones), app_ejemplo) \<and>
   \<not> list_ex (\<lambda>t. cuenta_debito_id t = 4 \<or> cuenta_credito_id t = 4) (tabla_transacciones (conn app_ejemplo)) \<and>
   fst (eliminar_cuenta app_ejemplo 4) = (True, Some CuentaEliminada) \<and>
   map nombre (tabla_cuentas (conn (snd (eliminar_cuenta app_ejemplo 4)))) = [''CASH'', ''SALES'', ''RENT'']"
proof -
  have h1: "list_ex (\<lambda>t. cuenta_debito_id t = 1 \<or> cuenta_credito_id t = 1)
              (tabla_transacciones (conn app_ejemplo))"
    by code_simp
  have h4: "\<not> list_ex (\<lambda>t. cuenta_debito_id t = 4 \<or> cuenta_credito_id t = 4)
              (tabla_transacciones (conn app_ejemplo))"
    by code_simp
  have n: "map nombre (filter (\<lambda>c. cuenta_id c \<noteq> 4) (tabla_cuentas (conn app_ejemplo))) =
           [''CASH'', ''SALES'', ''RENT'']"
    by code_simp
  have c1: "eliminar_cuenta app_ejemplo 1 = ((False, Some CuentaConTransacciones), app_ejemplo)"
    using eliminar_cuenta_guardia [of app_ejemplo 1] h1 by (simp add: list_ex_iff)
  have c4: "fst (eliminar_cuenta app_ejemplo 4) = (True, Some CuentaEliminada) \<and>
            tabla_cuentas (conn (snd (eliminar_cuenta app_ejemplo 4))) =
              filter (\<lambda>c. cuenta_id c \<noteq> 4) (tabla_cuentas (conn app_ejemplo))"
    using eliminar_cuenta_guardia [of app_ejemplo 4] h4 by (simp add: list_ex_iff)
  from h1 c1 h4 c4 n show ?thesis
    by simp
qed

text \<open>
  Claim C7, as amended. \<open>eliminar_transaccion\<close> always reports success: it removes the
  entry with the given id, with no check of any dependency, leaves the other entries and the
  accounts as they are, and when no entry has that id the state is unchanged.
\<close>

theorem eliminar_transaccion_siempre_exito:
  "fst (eliminar_transaccion a i) = (True, Some (TransaccionEliminada i)) \<and>
   tabla_transacciones (conn (snd (eliminar_transaccion a i))) =
     filter (\<lambda>t. trans_id t \<noteq> i) (tabla_transacciones (conn a)) \<and>
   i \<notin> trans_id ` set (tabla_transacciones (conn (snd (eliminar_transaccion a i)))) \<and>
   tabla_cuentas (conn (snd (eliminar_transaccion a i))) = tabla_cuentas (conn a) \<and>
   (i \<notin> trans_id ` set (tabla_transacciones (conn a)) \<longrightarrow>
      snd (eliminar_transaccion a i) = a)"
proof -
  have "i \<notin> trans_id ` set (tabla_transacciones (conn a)) \<Longrightarrow>
        filter (\<lambda>t. trans_id t \<noteq> i) (tabla_transacciones (conn a)) = tabla_transacciones (conn a)"
    by (rule filter_True) auto
  then show ?thesis
    by (auto simp: eliminar_transaccion_def ejecutar_consulta_def delete_transaccion_def)
qed

theorem eliminar_transaccion_siempre_exito_witness:
  "5 \<notin> trans_id ` set (tabla_transacciones (conn app_ejemplo)) \<and>
   eliminar_transaccion app_ejemplo 5 = ((True, Some (TransaccionEliminada 5)), app_ejemplo) \<and>
   fst (eliminar_transaccion app_ejemplo 1) = (True, Some (TransaccionEliminada 1)) \<and>
   map trans_id (tabla_transacciones (conn (snd (eliminar_transaccion app_ejemplo 1)))) = [2]"
proof -
  have h: "5 \<notin> trans_id ` set (tabla_transacciones (conn app_ejemplo))"
    by code_simp
  have n: "map trans_id (filter (\<lambda>t. trans_id t \<noteq> 1) (tabla_transacciones (conn app_ejemplo))) = [2]"
    by code_simp
  have c5: "eliminar_transaccion app_ejemplo 5 = ((True, Some (TransaccionEliminada 5)), app_ejemplo)"
    using eliminar_transaccion_siempre_exito [of app_ejemplo 5] h by (simp add: prod_eq_iff)
  have c1: "fst (eliminar_transaccion app_ejemplo 1) = (True, Some (TransaccionEliminada 1)) \<and>
            map trans_id (tabla_transacciones (conn (snd (eliminar_transaccion app_ejemplo 1)))) = [2]"
    using eliminar_transaccion_siempre_exito [of app_ejemplo 1] n by simp
  from h c5 c1 show ?thesis
    by simp
qed

theorem eliminar_transaccion_counterexample:
  "5 \<notin> trans_id ` set (tabla_transacciones (conn app_ejemplo)) \<and>
   fst (fst (eliminar_transaccion app_ejemplo 5)) = True \<and>
   snd (fst (eliminar_transaccion app_ejemplo 5)) = Some (TransaccionEliminada 5)"
  by code_simp

subsection \<open>The account ledger\<close>

lemma recorrer_movimientos_eq:
  "recorrer_movimientos cid acreedor acum filas ts =
     \<lparr>mayor_tree = filas @
        map (\<lambda>k. \<lparr>fm_fecha = fecha (ts ! k), fm_descripcion = descripcion (ts ! k),
                   fm_debito = debit_amount cid (ts ! k), fm_credito = credit_amount cid (ts ! k),
                   fm_saldo_acumulado = acum +
                     sum_list (map (\<lambda>t. if acreedor then credit_amount cid t - debit_amount cid t
                                          else debit_amount cid t - credit_amount cid t)
                                   (take (Suc k) ts))\<rparr>) [0..<length ts],
      mayor_saldo = acum +
        sum_list (map (\<lambda>t. if acreedor then credit_amount cid t - debit_amount cid t
                             else debit_amount cid t - credit_amount cid t) ts)\<rparr>"
proof (induction cid acreedor acum filas ts rule: recorrer_movimientos.induct)
  case (1 cid acreedor acum filas)
  then show ?case by simp
next
  case (2 cid acreedor acum filas t ts)
  have up: "[0..<length (t # ts)] = 0 # map Suc [0..<length ts]"
    by (simp add: upt_conv_Cons map_Suc_upt del: upt_Suc)
  show ?case
    unfolding recorrer_movimientos.simps Let_def up
    by (subst "2.IH"[OF refl refl refl])
       (simp add: debit_amount_def credit_amount_def comp_def algebra_simps)
qed

lemma filter_clave_unica:
  "distinct (map f cs) \<Longrightarrow> c \<in> set cs \<Longrightarrow> filter (\<lambda>x. f x = f c) cs = [c]"
proof (induction cs)
  case Nil
  then show ?case by simp
next
  case (Cons x cs)
  show ?case
  proof (cases "x = c")
    case True
    then have "filter (\<lambda>x. f x = f c) cs = []"
      using Cons.prems(1) by (force simp: filter_empty_conv image_iff)
    with True show ?thesis by simp
  next
    case False
    then have "c \<in> set cs" using Cons.prems(2) by simp
    moreover from this have "f x \<noteq> f c" using Cons.prems(1) by auto
    ultimately show ?thesis using Cons by simp
  qed
qed

lemma tipo_saldo_cuenta:
  assumes "ids_unicos db" "c \<in> set (tabla_cuentas db)"
  shows "map (\<lambda>(i, d). sd_tipo d) (filter (\<lambda>(i, d). i = cuenta_id c) (calcular_saldos db)) = [tipo c]"
proof -
  have "filter (\<lambda>(i, d). i = cuenta_id c) (calcular_saldos db) =
        map (\<lambda>c. (cuenta_id c, \<lparr>sd_nombre = nombre c, sd_tipo = tipo c,
                              saldo = suma_debitos db (cuenta_id c) - suma_creditos db (cuenta_id c)\<rparr>))
          (filter (\<lambda>x. cuenta_id x = cuenta_id c) (tabla_cuentas db))"
    by (simp add: calcular_saldos_distinct[OF assms(1)] filter_map comp_def)
  also have "filter (\<lambda>x. cuenta_id x = cuenta_id c) (tabla_cuentas db) = [c]"
    using assms by (intro filter_clave_unica) (simp_all add: ids_unicos_def)
  finally show ?thesis by simp
qed

text \<open>
  Claim C8. For an account of the registry (with a non-zero id), the ledger view walks the
  entries that touch the account in ascending order of \<open>fecha\<close>. Row \<open>k\<close> shows the
  amount of movement \<open>k\<close> in the debit column when the account is its debit leg (else 0) and
  in the credit column when it is its credit leg (else 0), and the running balance of the
  row is the sum, over the movements up to and including \<open>k\<close>, of credit minus debit for
  an account of type PASIVO, CAPITAL or INGRESO and of debit minus credit for any other type.
\<close>

theorem libro_mayor_saldo_acumulado:
  assumes "ids_unicos db" and "c \<in> set (tabla_cuentas db)" and "cuenta_id c \<noteq> 0"
    and "movs = obtener_movimientos_cuenta db (cuenta_id c)"
  shows "sorted (map fecha movs) \<and>
         mset movs = mset (filter (\<lambda>t. cuenta_debito_id t = cuenta_id c \<or> cuenta_credito_id t = cuenta_id c)
                                  (tabla_transacciones db)) \<and>
         actualizar_mayor_cuenta_seleccionada db (Some (cuenta_id c)) vista =
           Inr \<lparr>mayor_tree =
                  map (\<lambda>k. \<lparr>fm_fecha = fecha (movs ! k), fm_descripcion = descripcion (movs ! k),
                             fm_debito = debit_amount (cuenta_id c) (movs ! k),
                             fm_credito = credit_amount (cuenta_id c) (movs ! k),
                             fm_saldo_acumulado =
                               sum_list (map (paso_saldo (tipo c) (cuenta_id c)) (take (Suc k) movs))\<rparr>)
                      [0..<length movs],
                mayor_saldo = sum_list (map (paso_saldo (tipo c) (cuenta_id c)) movs)\<rparr>"
proof -
  have s: "sorted (map fecha movs)"
    by (simp add: assms(4) obtener_movimientos_cuenta_def)
  have m: "mset movs = mset (filter (\<lambda>t. cuenta_debito_id t = cuenta_id c \<or> cuenta_credito_id t = cuenta_id c)
                                  (tabla_transacciones db))"
    by (simp add: assms(4) obtener_movimientos_cuenta_def)
  have p: "(\<lambda>t. if tipo c \<in> set tipos_saldo_acreedor
                 then credit_amount (cuenta_id c) t - debit_amount (cuenta_id c) t
                 else debit_amount (cuenta_id c) t - credit_amount (cuenta_id c) t) =
           paso_saldo (tipo c) (cuenta_id c)"
    by (rule ext) (simp add: paso_saldo_def tipos_saldo_acreedor_def)
  have a: "actualizar_mayor_cuenta_seleccionada db (Some (cuenta_id c)) vista =
           Inr (recorrer_movimientos (cuenta_id c) (tipo c \<in> set tipos_saldo_acreedor) 0 [] movs)"
    using assms(3)
    by (simp add: actualizar_mayor_cuenta_seleccionada_def Let_def
        tipo_saldo_cuenta[OF assms(1,2)] assms(4))
  show ?thesis
    unfolding a recorrer_movimientos_eq p using s m by simp
qed

theorem libro_mayor_saldo_acumulado_witness:
  "ids_unicos (conn app_ejemplo) \<and>
   \<lparr>cuenta_id = 1, nombre = ''CASH'', tipo = ''ACTIVO''\<rparr> \<in> set (tabla_cuentas (conn app_ejemplo)) \<and>
   map (\<lambda>t. (cuenta_debito_id t, cuenta_credito_id t, monto t))
       (obtener_movimientos_cuenta (conn app_ejemplo) 1) = [(1, 2, 100), (3, 1, 40)] \<and>
   actualizar_mayor_cuenta_seleccionada (conn app_ejemplo) (Some 1) \<lparr>mayor_tree = [], mayor_saldo = 0\<rparr> =
     Inr \<lparr>mayor_tree =
            [\<lparr>fm_fecha = ''2024-03-01 09:00:00'', fm_descripcion = ''venta'',
              fm_debito = 100, fm_credito = 0, fm_saldo_acumulado = 100\<rparr>,
             \<lparr>fm_fecha = ''2024-03-02 09:00:00'', fm_descripcion = ''alquiler'',
              fm_debito = 0, fm_credito = 40, fm_saldo_acumulado = 60\<rparr>],
          mayor_saldo = 60\<rparr>"
proof -
  let ?db = "conn app_ejemplo"
  let ?c = "\<lparr>cuenta_id = 1, nombre = ''CASH'', tipo = ''ACTIVO''\<rparr>"
  let ?movs = "obtener_movimientos_cuenta ?db (cuenta_id ?c)"
  have h1: "ids_unicos ?db" by code_simp
  have h2: "?c \<in> set (tabla_cuentas ?db)" by code_simp
  have h3: "cuenta_id ?c \<noteq> 0" by simp
  have mv: "map (\<lambda>t. (cuenta_debito_id t, cuenta_credito_id t, monto t))
              (obtener_movimientos_cuenta ?db 1) = [(1, 2, 100), (3, 1, 40)]"
    by code_simp
  have rows: "\<lparr>mayor_tree =
                  map (\<lambda>k. \<lparr>fm_fecha = fecha (?movs ! k), fm_descripcion = descripcion (?movs ! k),
                             fm_debito = debit_amount (cuenta_id ?c) (?movs ! k),
                             fm_credito = credit_amount (cuenta_id ?c) (?movs ! k),
                             fm_saldo_acumulado =
                               sum_list (map (paso_saldo (tipo ?c) (cuenta_id ?c)) (take (Suc k) ?movs))\<rparr>)
                      [0..<length ?movs],
                mayor_saldo = sum_list (map (paso_saldo (tipo ?c) (cuenta_id ?c)) ?movs)\<rparr> =
         \<lparr>mayor_tree =
            [\<lparr>fm_fecha = ''2024-03-01 09:00:00'', fm_descripcion = ''venta'',
              fm_debito = 100, fm_credito = 0, fm_saldo_acumulado = 100\<rparr>,
             \<lparr>fm_fecha = ''2024-03-02 09:00:00'', fm_descripcion = ''alquiler'',
              fm_debito = 0, fm_credito = 40, fm_saldo_acumulado = 60\<rparr>],
          mayor_saldo = 60\<rparr>"
    by code_simp
  have "actualizar_mayor_cuenta_seleccionada ?db (Some (cuenta_id ?c)) \<lparr>mayor_tree = [], mayor_saldo = 0\<rparr> =
     Inr \<lparr>mayor_tree =
            [\<lparr>fm_fecha = ''2024-03-01 09:00:00'', fm_descripcion = ''venta'',
              fm_debito = 100, fm_credito = 0, fm_saldo_acumulado = 100\<rparr>,
             \<lparr>fm_fecha = ''2024-03-02 09:00:00'', fm_descripcion = ''alquiler'',
              fm_debito = 0, fm_credito = 40, fm_saldo_acumulado = 60\<rparr>],
          mayor_saldo = 60\<rparr>"
    using libro_mayor_saldo_acumulado [OF h1 h2 h3 refl, of "\<lparr>mayor_tree = [], mayor_saldo = 0\<rparr>"]
    unfolding rows by blast
  then show ?thesis
    using h1 h2 mv by simp
qed

subsection \<open>Bulk import\<close>

lemma procesar_fila_forma:
  assumes "tabla_cuentas db = tabla_cuentas db0" "foreign_keys db = foreign_keys db0"
  shows "case procesar_fila mapa rd rb f k row db0 of
           Inl e \<Rightarrow> procesar_fila mapa rd rb f k row db = Inl e
         | Inr db0' \<Rightarrow>
             (\<exists>t. procesar_fila mapa rd rb f k row db =
                     Inr (db\<lparr>tabla_transacciones := tabla_transacciones db @ [t]\<rparr>) \<and>
                  sin_id t = sin_id (last (tabla_transacciones db0')))"
  using assms
  by (auto simp: procesar_fila_def insert_transaccion_def Let_def sin_id_def
      split: celda_monto.splits option.splits)

lemma recorrer_filas_eq:
  assumes "tabla_cuentas (ei_db st) = tabla_cuentas db0" "foreign_keys (ei_db st) = foreign_keys db0"
  shows "\<exists>news.
           tabla_transacciones (ei_db (recorrer_filas mapa rd rb reloj i st rows)) =
             tabla_transacciones (ei_db st) @ news \<and>
           map sin_id news = entradas_filas mapa rd rb reloj db0 i rows \<and>
           errores (recorrer_filas mapa rd rb reloj i st rows) =
             errores st @ errores_filas mapa rd rb reloj db0 i rows \<and>
           transacciones_importadas (recorrer_filas mapa rd rb reloj i st rows) =
             transacciones_importadas st + length news \<and>
           tabla_cuentas (ei_db (recorrer_filas mapa rd rb reloj i st rows)) = tabla_cuentas db0 \<and>
           foreign_keys (ei_db (recorrer_filas mapa rd rb reloj i st rows)) = foreign_keys db0"
  using assms
proof (induction rows arbitrary: i st)
  case Nil
  then show ?case
    by (simp add: entradas_filas_def errores_filas_def)
next
  case (Cons row rows)
  let ?q = "procesar_fila mapa rd rb (reloj i) i row db0"
  let ?p = "procesar_fila mapa rd rb (reloj i) i row (ei_db st)"
  note forma = procesar_fila_forma[OF Cons.prems, of mapa rd rb "reloj i" i row]
  show ?case
  proof (cases ?q)
    case c0: (Inl e)
    then have p: "?p = Inl e" using forma by simp
    let ?sig = "st\<lparr>errores := errores st @ [e]\<rparr>"
    have r: "recorrer_filas mapa rd rb reloj i st (row # rows) =
             recorrer_filas mapa rd rb reloj (Suc i) ?sig rows"
      by (simp add: p)
    have e1: "errores_filas mapa rd rb reloj db0 i (row # rows) =
              e # errores_filas mapa rd rb reloj db0 (Suc i) rows"
      and n1: "entradas_filas mapa rd rb reloj db0 i (row # rows) =
               entradas_filas mapa rd rb reloj db0 (Suc i) rows"
      using c0 by (simp_all add: errores_filas_def entradas_filas_def)
    from Cons.IH[of ?sig "Suc i"] Cons.prems show ?thesis
      unfolding r e1 n1 by simp
  next
    case c1: (Inr db0')
    then obtain t where p: "?p = Inr ((ei_db st)\<lparr>tabla_transacciones := tabla_transacciones (ei_db st) @ [t]\<rparr>)"
      and t: "sin_id t = sin_id (last (tabla_transacciones db0'))"
      using forma by auto
    let ?sig = "st\<lparr>ei_db := (ei_db st)\<lparr>tabla_transacciones := tabla_transacciones (ei_db st) @ [t]\<rparr>,
                    transacciones_importadas := transacciones_importadas st + 1\<rparr>"
    have r: "recorrer_filas mapa rd rb reloj i st (row # rows) =
             recorrer_filas mapa rd rb reloj (Suc i) ?sig rows"
      by (simp add: p)
    have e1: "errores_filas mapa rd rb reloj db0 i (row # rows) =
              errores_filas mapa rd rb reloj db0 (Suc i) rows"
      and n1: "entradas_filas mapa rd rb reloj db0 i (row # rows) =
               sin_id t # entradas_filas mapa rd rb reloj db0 (Suc i) rows"
      using c1 t by (simp_all add: errores_filas_def entradas_filas_def)
    from Cons.IH[of ?sig "Suc i"] Cons.prems
    obtain news where
      n: "tabla_transacciones (ei_db (recorrer_filas mapa rd rb reloj (Suc i) ?sig rows)) =
            (tabla_transacciones (ei_db st) @ [t]) @ news"
        "map sin_id news = entradas_filas mapa rd rb reloj db0 (Suc i) rows"
        "errores (recorrer_filas mapa rd rb reloj (Suc i) ?sig rows) =
            errores st @ errores_filas mapa rd rb reloj db0 (Suc i) rows"
        "transacciones_importadas (recorrer_filas mapa rd rb reloj (Suc i) ?sig rows) =
            transacciones_importadas st + 1 + length news"
        "tabla_cuentas (ei_db (recorrer_filas mapa rd rb reloj (Suc i) ?sig rows)) = tabla_cuentas db0"
        "foreign_keys (ei_db (recorrer_filas mapa rd rb reloj (Suc i) ?sig rows)) = foreign_keys db0"
      by auto
    show ?thesis
      unfolding r e1 n1
      by (rule exI[of _ "t # news"]) (use n in simp)
  qed
qed

lemma filas_repartidas:
  "length (entradas_filas mapa rd rb reloj db i rows) +
   length (errores_filas mapa rd rb reloj db i rows) = length rows"
  by (induction rows arbitrary: i)
     (auto simp: entradas_filas_def errores_filas_def split: sum.splits)

text \<open>
  Claim C10. For a sheet that has the required columns, the importer returns the success
  flag exactly when no row was rejected. When at least one row is rejected it returns the
  failure flag with the number of admitted rows, the number of rejected rows, the messages
  of at most the first ten of them, and the count of the remaining ones when there are more
  than ten; every row is either admitted or rejected, and the entries of all admitted rows
  are appended to the journal, in row order, after the entries that were there before.
\<close>

theorem importacion_parcial:
  assumes "list_all (\<lambda>col. col \<in> set (map normalizar_columna cols)) required_cols"
    and "errs = errores_filas (nombre_a_id a) (''REF_DOC'' \<in> set (map normalizar_columna cols))
                  (''REF_BANCO'' \<in> set (map normalizar_columna cols)) reloj (conn a) 0 filas"
    and "nuevas = entradas_filas (nombre_a_id a) (''REF_DOC'' \<in> set (map normalizar_columna cols))
                  (''REF_BANCO'' \<in> set (map normalizar_columna cols)) reloj (conn a) 0 filas"
    and "res = importar_transacciones_excel a reloj (Hoja cols filas)"
  shows "(fst (fst res) = True \<longleftrightarrow> errs = []) \<and>
         (errs \<noteq> [] \<longrightarrow>
            fst res = (False, Some (ImportacionParcial (length nuevas) (length errs) (take 10 errs)
                                      (if length errs > 10 then Some (length errs - 10) else None)))) \<and>
         (errs = [] \<longrightarrow> fst res = (True, Some (ImportacionExitosa (length filas)))) \<and>
         length (take 10 errs) \<le> 10 \<and>
         length nuevas + length errs = length filas \<and>
         (\<exists>news. tabla_transacciones (conn (snd res)) = tabla_transacciones (conn a) @ news \<and>
                 map sin_id news = nuevas) \<and>
         tabla_cuentas (conn (snd res)) = tabla_cuentas (conn a)"
proof -
  let ?rd = "''REF_DOC'' \<in> set (map normalizar_columna cols)"
  let ?rb = "''REF_BANCO'' \<in> set (map normalizar_columna cols)"
  let ?ini = "\<lparr>ei_db = conn a, transacciones_importadas = 0, errores = []\<rparr>"
  let ?st = "recorrer_filas (nombre_a_id a) ?rd ?rb reloj 0 ?ini filas"
  have a1: "tabla_cuentas (ei_db ?ini) = tabla_cuentas (conn a)"
    and a2: "foreign_keys (ei_db ?ini) = foreign_keys (conn a)"
    by simp_all
  have "\<exists>news. tabla_transacciones (ei_db ?st) = tabla_transacciones (conn a) @ news \<and>
          map sin_id news = nuevas \<and> errores ?st = errs \<and>
          transacciones_importadas ?st = length news \<and>
          tabla_cuentas (ei_db ?st) = tabla_cuentas (conn a)"
    using recorrer_filas_eq[OF a1 a2, of "nombre_a_id a" ?rd ?rb reloj 0 filas]
    unfolding assms(2,3) by (simp, blast)
  then obtain news where
    n: "tabla_transacciones (ei_db ?st) = tabla_transacciones (conn a) @ news"
       "map sin_id news = nuevas"
       "errores ?st = errs"
       "transacciones_importadas ?st = length news"
       "tabla_cuentas (ei_db ?st) = tabla_cuentas (conn a)"
    by blast
  have ln: "length news = length nuevas"
    using n(2) by (metis length_map)
  have tot: "length nuevas + length errs = length filas"
    unfolding assms(2,3) by (rule filas_repartidas)
  have res: "res = (if errs \<noteq> []
                    then ((False, Some (ImportacionParcial (length nuevas) (length errs) (take 10 errs)
                                      (if length errs > 10 then Some (length errs - 10) else None))),
                          a\<lparr>conn := ei_db ?st\<rparr>)
                    else ((True, Some (ImportacionExitosa (length nuevas))), a\<lparr>conn := ei_db ?st\<rparr>))"
    unfolding assms(4) importar_transacciones_excel_def
    using assms(1) by (simp add: Let_def n(3,4) ln del: set_map)
  have db: "conn (snd res) = ei_db ?st"
    unfolding res by simp
  have "\<exists>news. tabla_transacciones (conn (snd res)) = tabla_transacciones (conn a) @ news \<and>
                 map sin_id news = nuevas"
    unfolding db using n(1,2) by blast
  moreover have "tabla_cuentas (conn (snd res)) = tabla_cuentas (conn a)"
    unfolding db by (rule n(5))
  moreover have "errs = [] \<longrightarrow> fst res = (True, Some (ImportacionExitosa (length filas)))"
  proof
    assume e: "errs = []"
    with tot have "length nuevas = length filas"
      by simp
    with e show "fst res = (True, Some (ImportacionExitosa (length filas)))"
      unfolding res by simp
  qed
  moreover have "fst (fst res) = True \<longleftrightarrow> errs = []"
    using res by simp
  moreover have "errs \<noteq> [] \<longrightarrow>
            fst res = (False, Some (ImportacionParcial (length nuevas) (length errs) (take 10 errs)
                                      (if length errs > 10 then Some (length errs - 10) else None)))"
    using res by simp
  ultimately show ?thesis
    using tot by simp
qed

theorem importacion_parcial_witness:
  "list_all (\<lambda>col. col \<in> set (map normalizar_columna columnas_ejemplo)) required_cols \<and>
   errores_filas (nombre_a_id app_cuentas_ejemplo)
     (''REF_DOC'' \<in> set (map normalizar_columna columnas_ejemplo))
     (''REF_BANCO'' \<in> set (map normalizar_columna columnas_ejemplo))
     reloj_ejemplo (conn app_cuentas_ejemplo) 0 filas_ejemplo = [DebitoNoExiste 3 ''BANCO''] \<and>
   fst (importar_transacciones_excel app_cuentas_ejemplo reloj_ejemplo (Hoja columnas_ejemplo filas_ejemplo)) =
     (False, Some (ImportacionParcial 2 1 [DebitoNoExiste 3 ''BANCO''] None)) \<and>
   map descripcion (tabla_transacciones (conn (snd
     (importar_transacciones_excel app_cuentas_ejemplo reloj_ejemplo (Hoja columnas_ejemplo filas_ejemplo))))) =
     [''venta'', ''alquiler'']"
proof -
  let ?a = app_cuentas_ejemplo
  let ?rd = "''REF_DOC'' \<in> set (map normalizar_columna columnas_ejemplo)"
  let ?rb = "''REF_BANCO'' \<in> set (map normalizar_columna columnas_ejemplo)"
  let ?errs = "errores_filas (nombre_a_id ?a) ?rd ?rb reloj_ejemplo (conn ?a) 0 filas_ejemplo"
  let ?nuevas = "entradas_filas (nombre_a_id ?a) ?rd ?rb reloj_ejemplo (conn ?a) 0 filas_ejemplo"
  let ?res = "importar_transacciones_excel ?a reloj_ejemplo (Hoja columnas_ejemplo filas_ejemplo)"
  have h: "list_all (\<lambda>col. col \<in> set (map normalizar_columna columnas_ejemplo)) required_cols"
    by code_simp
  have e: "?errs = [DebitoNoExiste 3 ''BANCO'']"
    by code_simp
  have n: "length ?nuevas = 2"
    by code_simp
  have d: "map descripcion (tabla_transacciones (conn (snd ?res))) = [''venta'', ''alquiler'']"
    by code_simp
  have "fst ?res = (False, Some (ImportacionParcial 2 1 [DebitoNoExiste 3 ''BANCO''] None))"
    using importacion_parcial [OF h refl refl refl, of ?a reloj_ejemplo filas_ejemplo]
    unfolding e n by simp
  with h e d show ?thesis
    by blast
qed

end
